theory Spec2Isabelle
  imports Main "HOL-Library.Sublist"
begin

section \<open>Python strings, exceptions and the \<open>try\<close> statement\<close>

text \<open>
  A Python \<open>str\<close> is a sequence of Unicode code points, and \<open>len\<close>, slicing,
  \<open>strip\<close> and \<open>splitlines\<close> all count code points. The model is a list of code
  points as natural numbers; \<open>u\<close> embeds an ASCII literal.
\<close>

type_synonym uchar = nat
type_synonym ustr = "uchar list"

definition u :: "string \<Rightarrow> ustr" where
  "u s = map of_char s"

text \<open>
  Every exception the program can meet is an instance of \<open>Exception\<close>, which is what
  each \<open>except Exception as e\<close> clause catches. \<open>Raised m\<close> is an exception of a
  provider (or of a library) whose \<open>str()\<close> is \<open>m\<close>; \<open>KeyError k\<close> is the one
  a \<open>dict\<close> raises for the missing key \<open>k\<close>, whose \<open>str()\<close> is the key in single
  quotes (the keys of this program are plain identifiers).
\<close>

datatype exn = Raised ustr | KeyError ustr

fun exn_str :: "exn \<Rightarrow> ustr" where
  "exn_str (Raised m) = m"
| "exn_str (KeyError k) = [39] @ k @ [39]"

text \<open>
  \<open>try: body  except Exception as e: handler e\<close>. A computation that may raise is a
  value of \<open>exn + 'a\<close>, with \<open>Inl\<close> the exception.
\<close>

definition try_except :: "exn + 'a \<Rightarrow> (exn \<Rightarrow> exn + 'a) \<Rightarrow> exn + 'a" where
  "try_except body handler = (case body of Inl e \<Rightarrow> handler e | Inr v \<Rightarrow> Inr v)"

text \<open>Sequencing of statements that may raise: the first exception ends the block.\<close>

definition bind_exn :: "exn + 'a \<Rightarrow> ('a \<Rightarrow> exn + 'b) \<Rightarrow> exn + 'b" where
  "bind_exn m f = (case m of Inl e \<Rightarrow> Inl e | Inr v \<Rightarrow> f v)"

text \<open>\<open>d[k]\<close> on a dictionary.\<close>

definition getitem :: "(ustr \<rightharpoonup> 'v) \<Rightarrow> ustr \<Rightarrow> exn + 'v" where
  "getitem d k = (case d k of None \<Rightarrow> Inl (KeyError k) | Some v \<Rightarrow> Inr v)"

text \<open>\<open>[f(x) for x in xs]\<close> where \<open>f\<close> may raise: the first exception ends the loop.\<close>

fun list_comprehension :: "('a \<Rightarrow> exn + 'b) \<Rightarrow> 'a list \<Rightarrow> exn + 'b list" where
  "list_comprehension f [] = Inr []"
| "list_comprehension f (x # xs) =
     (case f x of
        Inl e \<Rightarrow> Inl e
      | Inr y \<Rightarrow> (case list_comprehension f xs of Inl e \<Rightarrow> Inl e | Inr ys \<Rightarrow> Inr (y # ys)))"

text \<open>\<open>sep.join(xs)\<close>.\<close>

fun join :: "ustr \<Rightarrow> ustr list \<Rightarrow> ustr" where
  "join sep [] = []"
| "join sep [x] = x"
| "join sep (x # y # ys) = x @ sep @ join sep (y # ys)"

section \<open>The interactive surface\<close>

text \<open>
  Streamlit calls are effects on the page. The model records them, in order, as a list
  of events; a function that draws on the page takes the events so far and returns them
  extended. The two calls into the hosted agent are events as well, logged when the call
  is made.
\<close>

datatype ui_event =
    PageConfig
  | Style
  | Error ustr
  | Toast ustr ustr
  | Image
  | Markdown ustr
  | TextInput ustr
  | Pills ustr
  | Button ustr
  | Caption ustr
  | Title ustr
  | Divider
  | Status ustr
  | Write ustr
  | StatusUpdate ustr
  | DownloadButton ustr ustr ustr ustr
  | Warning ustr
  | AgentFromTools ustr
  | AgentChat ustr

type_synonym ui = "ui_event list"

section \<open>The three tools\<close>

subsection \<open>\<open>web_search\<close>\<close>

text \<open>
  The search provider \<open>tavily.search(query=query, search_depth="advanced")\<close> is a
  parameter: it raises, or returns a dictionary whose \<open>"results"\<close> entry is a list of
  dictionaries with text fields.
\<close>

type_synonym search_item = "ustr \<rightharpoonup> ustr"
type_synonym search_response = "ustr \<rightharpoonup> search_item list"

definition web_search_body :: "(ustr \<Rightarrow> exn + search_response) \<Rightarrow> ustr \<Rightarrow> exn + ustr" where
  "web_search_body tavily_search query =
     bind_exn (tavily_search query) (\<lambda>response.
     bind_exn (getitem response (u ''results'')) (\<lambda>results.
     bind_exn (list_comprehension (\<lambda>obj. getitem obj (u ''content'')) results) (\<lambda>context.
     Inr (join [10, 10] context))))"

definition web_search ::
  "(ustr \<Rightarrow> exn + search_response) \<Rightarrow> ustr \<Rightarrow> ui \<Rightarrow> (exn + ustr) \<times> ui" where
  "web_search tavily_search query page =
     (try_except (web_search_body tavily_search query)
        (\<lambda>e. Inr (u ''Search failed: '' @ exn_str e)),
      page @ [Toast ([0x1F30D] @ u '' Searching Google: '' @ query @ u ''...'') [0x1F50D]])"

subsection \<open>\<open>get_stock_info\<close>\<close>

text \<open>
  The market-data provider \<open>yf.Ticker(ticker).info\<close> is a parameter: it raises, or
  returns a dictionary of named fields. A field's value is a \<open>str\<close> or some other
  object (a number, \<open>None\<close>); how Python formats those inside an f-string is the
  parameter \<open>fmt\<close>.
\<close>

datatype 'a pyval = PyStr ustr | PyObj 'a

fun py_format :: "('a \<Rightarrow> ustr) \<Rightarrow> 'a pyval \<Rightarrow> ustr" where
  "py_format fmt (PyStr s) = s"
| "py_format fmt (PyObj a) = fmt a"

text \<open>\<open>d.get(k, default)\<close>.\<close>

definition dict_get :: "(ustr \<rightharpoonup> 'v) \<Rightarrow> ustr \<Rightarrow> 'v \<Rightarrow> 'v" where
  "dict_get d k dflt = (case d k of None \<Rightarrow> dflt | Some v \<Rightarrow> v)"

text \<open>One replacement field \<open>{info.get(key, 'N/A')}\<close> of the template.\<close>

definition info_field :: "('a \<Rightarrow> ustr) \<Rightarrow> (ustr \<rightharpoonup> 'a pyval) \<Rightarrow> string \<Rightarrow> ustr" where
  "info_field fmt info key = py_format fmt (dict_get info (u key) (PyStr (u ''N/A'')))"

text \<open>The four lines of the template, each after its line break and eight spaces.\<close>

definition price_line :: "('a \<Rightarrow> ustr) \<Rightarrow> (ustr \<rightharpoonup> 'a pyval) \<Rightarrow> ustr" where
  "price_line fmt info = u ''        Current Price: $'' @ info_field fmt info ''currentPrice''"

definition cap_line :: "('a \<Rightarrow> ustr) \<Rightarrow> (ustr \<rightharpoonup> 'a pyval) \<Rightarrow> ustr" where
  "cap_line fmt info = u ''        Market Cap: $'' @ info_field fmt info ''marketCap''"

definition high_line :: "('a \<Rightarrow> ustr) \<Rightarrow> (ustr \<rightharpoonup> 'a pyval) \<Rightarrow> ustr" where
  "high_line fmt info = u ''        52 Week High: $'' @ info_field fmt info ''fiftyTwoWeekHigh''"

definition recommendation_line :: "('a \<Rightarrow> ustr) \<Rightarrow> (ustr \<rightharpoonup> 'a pyval) \<Rightarrow> ustr" where
  "recommendation_line fmt info =
     u ''        Recommendation: '' @ info_field fmt info ''recommendationKey''"

definition stock_template :: "('a \<Rightarrow> ustr) \<Rightarrow> (ustr \<rightharpoonup> 'a pyval) \<Rightarrow> ustr" where
  "stock_template fmt info =
     [10] @ price_line fmt info @
     [10] @ cap_line fmt info @
     [10] @ high_line fmt info @
     [10] @ recommendation_line fmt info @
     [10] @ u ''        ''"

definition get_stock_info_body ::
  "('a \<Rightarrow> ustr) \<Rightarrow> (ustr \<Rightarrow> exn + (ustr \<rightharpoonup> 'a pyval)) \<Rightarrow> ustr \<Rightarrow> exn + ustr" where
  "get_stock_info_body fmt yf_info ticker =
     bind_exn (yf_info ticker) (\<lambda>info. Inr (stock_template fmt info))"

definition get_stock_info ::
  "('a \<Rightarrow> ustr) \<Rightarrow> (ustr \<Rightarrow> exn + (ustr \<rightharpoonup> 'a pyval)) \<Rightarrow> ustr \<Rightarrow> ui \<Rightarrow> (exn + ustr) \<times> ui" where
  "get_stock_info fmt yf_info ticker page =
     (try_except (get_stock_info_body fmt yf_info ticker)
        (\<lambda>e. Inr (u ''Stock fetch failed: '' @ exn_str e)),
      page @ [Toast ([0x1F4C8] @ u '' Reading Market Data: '' @ ticker @ u ''...'') [0x1F4CA]])"

subsection \<open>\<open>scrape_pricing_page\<close>\<close>

text \<open>
  What \<open>requests.get\<close> returns: the status code and the body. The function reads the
  body only.
\<close>

type_synonym bytes = "char list"

record http_response =
  status_code :: nat
  content :: bytes

text \<open>
  The parsed document. \<open>NavigableString\<close> is text that \<open>get_text\<close> collects;
  \<open>OtherString\<close> is a string it skips (a comment, a doctype, a declaration).
  The document object itself is a \<open>Tag\<close> named \<open>[document]\<close>.
\<close>

datatype node = NavigableString ustr | OtherString ustr | Tag ustr "node list"

fun named :: "ustr list \<Rightarrow> node \<Rightarrow> bool" where
  "named names (Tag n children) = (n \<in> set names)"
| "named names (NavigableString s) = False"
| "named names (OtherString s) = False"

text \<open>
  \<open>for script in soup(names): script.decompose()\<close>: every descendant element with one
  of the names is taken out of the tree, with all it contains.
\<close>

fun decompose_all :: "ustr list \<Rightarrow> node \<Rightarrow> node" where
  "decompose_all names (Tag n children) =
     Tag n (map (decompose_all names) (filter (\<lambda>c. \<not> named names c) children))"
| "decompose_all names (NavigableString s) = NavigableString s"
| "decompose_all names (OtherString s) = OtherString s"

fun get_text :: "node \<Rightarrow> ustr" where
  "get_text (NavigableString s) = s"
| "get_text (OtherString s) = []"
| "get_text (Tag n children) = concat (map get_text children)"

text \<open>The line boundaries of \<open>str.splitlines\<close> and the whitespace of \<open>str.strip\<close>.\<close>

definition is_linebreak :: "uchar \<Rightarrow> bool" where
  "is_linebreak c \<longleftrightarrow>
     c = 10 \<or> c = 11 \<or> c = 12 \<or> c = 13 \<or> c = 0x1C \<or> c = 0x1D \<or> c = 0x1E \<or>
     c = 0x85 \<or> c = 0x2028 \<or> c = 0x2029"

definition isspace :: "uchar \<Rightarrow> bool" where
  "isspace c \<longleftrightarrow>
     (9 \<le> c \<and> c \<le> 13) \<or> (0x1C \<le> c \<and> c \<le> 0x20) \<or> c = 0x85 \<or> c = 0xA0 \<or>
     c = 0x1680 \<or> (0x2000 \<le> c \<and> c \<le> 0x200A) \<or> c = 0x2028 \<or> c = 0x2029 \<or>
     c = 0x202F \<or> c = 0x205F \<or> c = 0x3000"

definition strip :: "ustr \<Rightarrow> ustr" where
  "strip s = rev (dropWhile isspace (rev (dropWhile isspace s)))"

text \<open>
  \<open>splitlines_from cur s\<close>: the lines of \<open>s\<close>, with \<open>cur\<close> the part of the current
  line already read. A carriage return followed by a line feed is one boundary, and a
  boundary at the very end opens no further line.
\<close>

fun splitlines_from :: "ustr \<Rightarrow> ustr \<Rightarrow> ustr list" where
  "splitlines_from cur [] = (if cur = [] then [] else [cur])"
| "splitlines_from cur [c] = (if is_linebreak c then [cur] else [cur @ [c]])"
| "splitlines_from cur (c # d # cs) =
     (if c = 13 \<and> d = 10 then cur # splitlines_from [] cs
      else if is_linebreak c then cur # splitlines_from [] (d # cs)
      else splitlines_from (cur @ [c]) (d # cs))"

definition splitlines :: "ustr \<Rightarrow> ustr list" where
  "splitlines s = splitlines_from [] s"

text \<open>\<open>line.split("  ")\<close>: the pieces between successive, non-overlapping pairs of spaces.\<close>

fun split_from :: "ustr \<Rightarrow> ustr \<Rightarrow> ustr list" where
  "split_from cur [] = [cur]"
| "split_from cur [c] = [cur @ [c]]"
| "split_from cur (c # d # cs) =
     (if c = 32 \<and> d = 32 then cur # split_from [] cs
      else split_from (cur @ [c]) (d # cs))"

definition split_two_spaces :: "ustr \<Rightarrow> ustr list" where
  "split_two_spaces line = split_from [] line"

definition text_lines :: "ustr \<Rightarrow> ustr list" where
  "text_lines text = map strip (splitlines text)"

definition text_chunks :: "ustr list \<Rightarrow> ustr list" where
  "text_chunks lines = concat (map (\<lambda>line. map strip (split_two_spaces line)) lines)"

definition clean_text :: "ustr \<Rightarrow> ustr" where
  "clean_text text =
     take 5000 (join [10] (filter (\<lambda>chunk. chunk \<noteq> []) (text_chunks (text_lines text))))"

text \<open>
  \<open>requests.get(url, headers=headers, timeout=10)\<close> and
  \<open>BeautifulSoup(response.content, 'html.parser')\<close> are parameters; each raises or
  returns. The parser returns the top-level nodes of the document, and \<open>soup\<close> is the
  document object around them.
\<close>

definition document :: "node list \<Rightarrow> node" where
  "document nodes = Tag (u ''[document]'') nodes"

definition scrape_pricing_page_body ::
  "(ustr \<Rightarrow> exn + http_response) \<Rightarrow> (bytes \<Rightarrow> exn + node list) \<Rightarrow> ustr \<Rightarrow> exn + ustr" where
  "scrape_pricing_page_body requests_get BeautifulSoup url =
     bind_exn (requests_get url) (\<lambda>response.
     bind_exn (BeautifulSoup (content response)) (\<lambda>nodes.
     Inr (clean_text (get_text (decompose_all [u ''script'', u ''style''] (document nodes))))))"

definition scrape_pricing_page ::
  "(ustr \<Rightarrow> exn + http_response) \<Rightarrow> (bytes \<Rightarrow> exn + node list) \<Rightarrow> ustr \<Rightarrow> ui \<Rightarrow>
     (exn + ustr) \<times> ui" where
  "scrape_pricing_page requests_get BeautifulSoup url page =
     (try_except (scrape_pricing_page_body requests_get BeautifulSoup url)
        (\<lambda>e. Inr (u ''Error scraping: '' @ exn_str e)),
      page @ [Toast ([0x1F440] @ u '' Analyzing Website: '' @ url @ u ''...'') [0x1F578, 0xFE0F]])"

section \<open>The script\<close>

text \<open>
  Streamlit runs the script from top to bottom on every interaction. What lies outside
  the script is gathered in one record: the environment (after \<open>load_dotenv\<close>) and the
  secrets store, the two client constructors, the hosted agent (\<open>from_tools\<close> wraps
  the three tool functions and builds the agent from them, the language model and the
  system prompt; \<open>chat\<close> runs one turn and returns the answer text together with the
  notifications of the tool calls it made), the values the three widgets return on this
  run, and \<open>str.upper\<close>. Reading \<open>st.secrets\<close> loads the secrets file: it raises
  when there is none, and is a mapping of strings otherwise.
\<close>

record ('llm, 'tavily, 'agent) world =
  getenv :: "ustr \<rightharpoonup> ustr"
  secrets :: "exn + (ustr \<rightharpoonup> ustr)"
  OpenAI :: "ustr option \<Rightarrow> exn + 'llm"
  TavilyClient :: "ustr option \<Rightarrow> exn + 'tavily"
  from_tools :: "'llm \<Rightarrow> ustr \<Rightarrow> exn + 'agent"
  chat :: "'agent \<Rightarrow> ustr \<Rightarrow> (exn + ustr) \<times> (ustr \<times> ustr) list"
  text_input :: ustr
  pills :: "ustr option"
  button :: bool
  upper :: "ustr \<Rightarrow> ustr"

text \<open>
  How a run of the script ends: it reaches the last line, \<open>st.stop()\<close> halts it, or an
  exception nobody catches aborts it.
\<close>

datatype outcome = Finished | Stopped | Crashed exn

text \<open>Truth value of an optional string: \<open>None\<close> and \<open>""\<close> are false.\<close>

definition truthy :: "ustr option \<Rightarrow> bool" where
  "truthy k = (case k of None \<Rightarrow> False | Some s \<Rightarrow> s \<noteq> [])"

text \<open>An optional string inside an f-string.\<close>

definition format_optional :: "ustr option \<Rightarrow> ustr" where
  "format_optional x = (case x of None \<Rightarrow> u ''None'' | Some s \<Rightarrow> s)"

definition missing_keys_message :: ustr where
  "missing_keys_message = [0x1F6A8] @ u '' Missing API Keys! Please check your .env file.''"

text \<open>
  Section 1 of the script. The result is the pair \<open>(openai_key, tavily_key)\<close>, or the
  way the run ended. The secrets store is read only when the environment has no model
  key; an exception of that reading is not caught.
\<close>

definition setup_api_keys ::
  "(ustr \<rightharpoonup> ustr) \<Rightarrow> exn + (ustr \<rightharpoonup> ustr) \<Rightarrow> ui \<Rightarrow>
     (outcome + ustr option \<times> ustr option) \<times> ui" where
  "setup_api_keys env secr page =
     (let openai_key = env (u ''OPENAI_API_KEY'');
          tavily_key = env (u ''TAVILY_API_KEY'')
      in if \<not> truthy openai_key then
           (case secr of
              Inl e \<Rightarrow> (Inl (Crashed e), page)
            | Inr store \<Rightarrow>
                if store (u ''OPENAI_API_KEY'') \<noteq> None then
                  (case getitem store (u ''OPENAI_API_KEY'') of
                     Inl e \<Rightarrow> (Inl (Crashed e), page)
                   | Inr ok \<Rightarrow>
                       (case getitem store (u ''TAVILY_API_KEY'') of
                          Inl e \<Rightarrow> (Inl (Crashed e), page)
                        | Inr tk \<Rightarrow> (Inr (Some ok, Some tk), page)))
                else (Inl Stopped, page @ [Error missing_keys_message]))
         else (Inr (openai_key, tavily_key), page))"

text \<open>Section 3: the sidebar with the three widgets, then the heading.\<close>

definition build_ui :: "ui \<Rightarrow> ui" where
  "build_ui page =
     page @
     [Image,
      Markdown (u ''## Control Center''),
      Markdown (u ''---''),
      TextInput ([0x1F3AF] @ u '' Target Asset''),
      Pills (u ''Select Objective''),
      Markdown (u ''---''),
      Button (u ''Initialize Stratagem '' @ [0x1F680]),
      Caption (u ''v2.1.0 | Enterprise Edition''),
      Title (u ''Stratagem AI''),
      Markdown (u ''### Market Intelligence & Competitor Reconnaissance''),
      Markdown []]"

text \<open>The f-strings of section 4 and 5.\<close>

definition status_label :: "ustr \<Rightarrow> ustr" where
  "status_label target_company =
     [0x26A1] @ u '' **Stratagem Active:** Analyzing '' @ target_company @ u ''...''"

definition system_prompt :: "ustr \<Rightarrow> ustr option \<Rightarrow> ustr" where
  "system_prompt target_company mission_goal =
     [10] @ u ''            You are Stratagem, an elite Market Intelligence Analyst.'' @
     [10] @ u ''            Target: '' @ target_company @
     [10] @ u ''            Goal: '' @ format_optional mission_goal @
     [10] @ u ''            '' @
     [10] @ u ''            Format your report cleanly with Markdown headers (##), bullet points, and bold text for key metrics.'' @
     [10] @ u ''            Always end with a '' @ [39] @ u ''Strategic Verdict'' @ [39] @ u '' section.'' @
     [10] @ u ''            ''"

definition chat_message :: "ustr \<Rightarrow> ustr option \<Rightarrow> ustr" where
  "chat_message target_company mission_goal =
     u ''Execute comprehensive analysis on '' @ target_company @
     u ''. Focus area: '' @ format_optional mission_goal"

definition report_card :: "(ustr \<Rightarrow> ustr) \<Rightarrow> ustr \<Rightarrow> ustr option \<Rightarrow> ustr" where
  "report_card upper_fn target_company mission_goal =
     [10] @ u ''    <div class='' @ [34] @ u ''report-card'' @ [34] @ u ''>'' @
     [10] @ u ''        <h2>'' @ [0x1F4C2] @ u '' Intelligence Dossier: '' @
            upper_fn target_company @ u ''</h2>'' @
     [10] @ u ''        <p><strong>Objective:</strong> '' @ format_optional mission_goal @ u ''</p>'' @
     [10] @ u ''    </div>'' @
     [10] @ u ''    ''"

definition filename :: "ustr \<Rightarrow> ustr" where
  "filename target_company = u ''Stratagem_'' @ target_company @ u ''_Report.md''"

definition warning_message :: ustr where
  "warning_message = [0x26A0, 0xFE0F] @ u '' Protocol Halted: Please define a Target Asset.''"

text \<open>Section 5: the report on the page and the export button.\<close>

definition display_results :: "(ustr \<Rightarrow> ustr) \<Rightarrow> ustr \<Rightarrow> ustr option \<Rightarrow> ustr \<Rightarrow> ui \<Rightarrow> ui" where
  "display_results upper_fn target_company mission_goal response page =
     page @
     [Markdown (report_card upper_fn target_company mission_goal),
      Markdown (u ''---''),
      Markdown response,
      Markdown (u ''---''),
      DownloadButton ([0x1F4E5] @ u '' Export Dossier (Markdown)'') response
        (filename target_company) (u ''text/markdown'')]"

text \<open>
  Section 4, the branch on the button and the target name. An exception of
  \<open>from_tools\<close> or of \<open>chat\<close> is not caught.
\<close>

definition main_agent_logic ::
  "('llm, 'tavily, 'agent) world \<Rightarrow> 'llm \<Rightarrow> ui \<Rightarrow> outcome \<times> ui" where
  "main_agent_logic w llm page =
     (let target_company = text_input w; mission_goal = pills w; start_btn = button w
      in if start_btn \<and> target_company \<noteq> [] then
           (let page1 = page @
                  [Divider,
                   Status (status_label target_company),
                   Write ([0x2699, 0xFE0F] @ u '' **Initializing Agents...**''),
                   AgentFromTools (system_prompt target_company mission_goal)]
            in case from_tools w llm (system_prompt target_company mission_goal) of
                 Inl e \<Rightarrow> (Crashed e, page1)
               | Inr agent \<Rightarrow>
                   (let msg = chat_message target_company mission_goal;
                        (result, toasts) = chat w agent msg;
                        page2 = page1 @ [AgentChat msg] @ map (\<lambda>(t, icon). Toast t icon) toasts
                    in case result of
                         Inl e \<Rightarrow> (Crashed e, page2)
                       | Inr response \<Rightarrow>
                           (Finished,
                            display_results (upper w) target_company mission_goal response
                              (page2 @ [StatusUpdate ([0x2705] @ u '' Analysis Complete'')]))))
         else if start_btn \<and> \<not> target_company \<noteq> [] then
           (Finished, page @ [Warning warning_message])
         else (Finished, page))"

text \<open>The whole script, from an empty page.\<close>

definition script :: "('llm, 'tavily, 'agent) world \<Rightarrow> outcome \<times> ui" where
  "script w =
     (case setup_api_keys (getenv w) (secrets w) [PageConfig, Style] of
        (Inl halt, page) \<Rightarrow> (halt, page)
      | (Inr (openai_key, tavily_key), page) \<Rightarrow>
          (case OpenAI w openai_key of
             Inl e \<Rightarrow> (Crashed e, page)
           | Inr llm \<Rightarrow>
               (case TavilyClient w tavily_key of
                  Inl e \<Rightarrow> (Crashed e, page)
                | Inr tavily \<Rightarrow> main_agent_logic w llm (build_ui page))))"

section \<open>Notions the properties are stated with\<close>

text \<open>How often a page's history records the construction of the agent, and a turn of it.\<close>

definition agent_constructions :: "ui \<Rightarrow> nat" where
  "agent_constructions page =
     length (filter (\<lambda>e. case e of AgentFromTools p \<Rightarrow> True | _ \<Rightarrow> False) page)"

definition agent_chats :: "ui \<Rightarrow> nat" where
  "agent_chats page = length (filter (\<lambda>e. case e of AgentChat m \<Rightarrow> True | _ \<Rightarrow> False) page)"

text \<open>
  Every text string of a document, in document order, each with the names of the elements
  around it (innermost first); and the text of the strings that lie in no element with
  one of the given names.
\<close>

fun texts_in :: "ustr list \<Rightarrow> node \<Rightarrow> (ustr list \<times> ustr) list" where
  "texts_in path (NavigableString s) = [(path, s)]"
| "texts_in path (OtherString s) = []"
| "texts_in path (Tag n children) = concat (map (texts_in (n # path)) children)"

definition outside :: "ustr list \<Rightarrow> ustr list \<times> ustr \<Rightarrow> bool" where
  "outside names entry = list_all (\<lambda>n. n \<notin> set names) (fst entry)"

definition text_outside :: "ustr list \<Rightarrow> node \<Rightarrow> ustr" where
  "text_outside names doc = concat (map snd (filter (outside names) (texts_in [] doc)))"

text \<open>
  A text whose only line boundaries are single line feeds, each after at least one
  character of its line; the flag says whether a line feed may come next.
\<close>

fun well_broken :: "bool \<Rightarrow> ustr \<Rightarrow> bool" where
  "well_broken b [] = True"
| "well_broken b (c # cs) =
     (if c = 10 then b \<and> well_broken False cs else \<not> is_linebreak c \<and> well_broken True cs)"

text \<open>A string without any line boundary.\<close>

definition single_line :: "ustr \<Rightarrow> bool" where
  "single_line s = list_all (\<lambda>c. \<not> is_linebreak c) s"

text \<open>
  The page once the branch of section 4 has announced the run and called \<open>from_tools\<close>.
\<close>

definition agent_page :: "('llm, 'tavily, 'agent) world \<Rightarrow> ui \<Rightarrow> ui" where
  "agent_page w page =
     page @
     [Divider,
      Status (status_label (text_input w)),
      Write ([0x2699, 0xFE0F] @ u '' **Initializing Agents...**''),
      AgentFromTools (system_prompt (text_input w) (pills w))]"

section \<open>Sample providers\<close>

text \<open>Concrete providers and pages, on which the properties below are evaluated.\<close>

definition failing_search :: "ustr \<Rightarrow> exn + search_response" where
  "failing_search query = Inl (Raised (u ''Request timed out''))"

definition failing_info :: "ustr \<Rightarrow> exn + (ustr \<rightharpoonup> unit pyval)" where
  "failing_info ticker = Inl (Raised (u ''Too Many Requests''))"

text \<open>The exception of \<open>requests\<close> for a URL without a scheme quotes the URL twice.\<close>

definition failing_get :: "ustr \<Rightarrow> exn + http_response" where
  "failing_get url =
     Inl (Raised (u ''Invalid URL '' @ [39] @ url @ [39] @
                  u '': No scheme supplied. Perhaps you meant https://'' @ url @ u ''?''))"

definition failing_parser :: "bytes \<Rightarrow> exn + node list" where
  "failing_parser body = Inl (Raised (u ''Parser rejected the markup''))"

definition sample_items :: "search_item list" where
  "sample_items =
     [[u ''content'' \<mapsto> u ''alpha'', u ''url'' \<mapsto> u ''a.example''],
      [u ''content'' \<mapsto> u ''beta'']]"

definition sample_search :: "ustr \<Rightarrow> exn + search_response" where
  "sample_search query = Inr [u ''results'' \<mapsto> sample_items]"

definition empty_search :: "ustr \<Rightarrow> exn + search_response" where
  "empty_search query = Inr [u ''results'' \<mapsto> []]"

definition no_fields :: "ustr \<Rightarrow> exn + (ustr \<rightharpoonup> unit pyval)" where
  "no_fields ticker = Inr Map.empty"

definition partial_fields :: "ustr \<Rightarrow> exn + (ustr \<rightharpoonup> unit pyval)" where
  "partial_fields ticker =
     Inr [u ''recommendationKey'' \<mapsto> PyStr (u ''buy''), u ''marketCap'' \<mapsto> PyObj ()]"

text \<open>The only value of the sample dictionaries that is not a string is \<open>None\<close>.\<close>

definition format_none :: "unit \<Rightarrow> ustr" where
  "format_none x = u ''None''"

text \<open>
  An error page: a title, a script and a style sheet in the head; in the body a paragraph
  with two phrases, a second script, and text after blank lines.
\<close>

definition sample_page :: "node list" where
  "sample_page =
     [OtherString (u ''html''),
      Tag (u ''html'')
        [Tag (u ''head'')
           [Tag (u ''title'') [NavigableString (u ''Not Found'')],
            Tag (u ''script'') [NavigableString (u ''var plan = 1;'')],
            Tag (u ''style'') [NavigableString (u ''p { color: red }'')]],
         NavigableString [10, 10],
         Tag (u ''body'')
           [Tag (u ''p'') [NavigableString (u ''  Pro plan  $20 per month '' @ [13, 10])],
            Tag (u ''script'') [NavigableString (u ''track();'')],
            NavigableString ([10, 32, 32, 10] @ u ''Contact sales'')]]]"

definition sample_get :: "ustr \<Rightarrow> exn + http_response" where
  "sample_get url = Inr \<lparr>status_code = 404, content = ''<!DOCTYPE html><html>...</html>''\<rparr>"

definition sample_parser :: "bytes \<Rightarrow> exn + node list" where
  "sample_parser body = Inr sample_page"

text \<open>
  A response whose body the parser rejects, and the exception the parser raises for it:
  two sentences, a blank line, and the exception of the underlying parser.
\<close>

definition rejected_get :: "ustr \<Rightarrow> exn + http_response" where
  "rejected_get url = Inr \<lparr>status_code = 404, content = ''<![n]>x''\<rparr>"

definition rejected_message :: ustr where
  "rejected_message =
     u ''The markup you provided was rejected by the parser. Trying a different parser or a different encoding may help.'' @
     [10, 10] @ u ''Original exception(s) from parser:'' @
     [10] @ u '' AssertionError: expected name token''"

definition rejecting_parser :: "bytes \<Rightarrow> exn + node list" where
  "rejecting_parser body =
     (if body = ''<![n]>x'' then Inl (Raised rejected_message) else Inr [])"

text \<open>A page whose own text starts the way the handler's strings do.\<close>

definition error_like_get :: "ustr \<Rightarrow> exn + http_response" where
  "error_like_get url = Inr \<lparr>status_code = 200, content = ''Error scraping: x''\<rparr>"

definition error_like_parser :: "bytes \<Rightarrow> exn + node list" where
  "error_like_parser body = Inr [NavigableString (u ''Error scraping: x'')]"

text \<open>
  A run with both keys in the environment, the button pressed and the default inputs;
  the agent answers after one tool call.
\<close>

definition sample_world :: "(unit, unit, unit) world" where
  "sample_world =
     \<lparr>getenv = [u ''OPENAI_API_KEY'' \<mapsto> u ''sk-test'', u ''TAVILY_API_KEY'' \<mapsto> u ''tvly-test''],
      secrets = Inr Map.empty,
      OpenAI = (\<lambda>key. Inr ()),
      TavilyClient = (\<lambda>key. Inr ()),
      from_tools = (\<lambda>llm prompt. Inr ()),
      chat = (\<lambda>agent msg.
        (Inr (u ''## Strategic Verdict''), [(u ''Reading Market Data: NVDA...'', [0x1F4CA])])),
      text_input = u ''Nvidia'',
      pills = Some (u ''General Analysis''),
      button = True,
      upper = (\<lambda>s. u ''NVIDIA'')\<rparr>"

text \<open>A turn that raises after one tool call, and an agent that cannot be built.\<close>

definition rate_limited_chat :: "unit \<Rightarrow> ustr \<Rightarrow> (exn + ustr) \<times> (ustr \<times> ustr) list" where
  "rate_limited_chat agent msg =
     (Inl (Raised (u ''Rate limit reached'')), [(u ''Searching Google: Nvidia...'', [0x1F50D])])"

definition rejecting_from_tools :: "unit \<Rightarrow> ustr \<Rightarrow> exn + unit" where
  "rejecting_from_tools llm prompt = Inl (Raised (u ''Invalid tool schema''))"


section \<open>Properties\<close>

subsection \<open>Exceptions and sequencing\<close>

lemma bind_exn_simps [simp]:
  "bind_exn (Inl e) f = Inl e"
  "bind_exn (Inr v) f = f v"
  by (simp_all add: bind_exn_def)

lemma try_except_simps [simp]:
  "try_except (Inl e) h = h e"
  "try_except (Inr v) h = Inr v"
  by (simp_all add: try_except_def)

lemma try_except_returns: "\<exists>s. try_except body (\<lambda>e. Inr (h e)) = Inr s"
  by (cases body) simp_all

lemma list_comprehension_getitem:
  "map (\<lambda>obj. obj k) items = map Some texts \<Longrightarrow>
   list_comprehension (\<lambda>obj. getitem obj k) items = Inr texts"
proof (induction items arbitrary: texts)
  case Nil
  then show ?case by simp
next
  case (Cons obj items)
  then obtain t ts where texts: "texts = t # ts" by (cases texts) auto
  with Cons.prems have "obj k = Some t" and "map (\<lambda>obj. obj k) items = map Some ts"
    by simp_all
  with Cons.IH [of ts] texts show ?case by (simp add: getitem_def)
qed

subsection \<open>The tools never raise\<close>

text \<open>
  Claim C1. Each of the three tools returns a string whatever its providers do. When a
  provider raises (the search request, the market-data request, the page request, or
  the parser of the page), the tool returns its fixed prefix, \<open>Search failed: \<close>,
  \<open>Stock fetch failed: \<close> or \<open>Error scraping: \<close>, followed by the text of the
  exception.
\<close>

theorem tool_exceptions_become_strings:
  "(\<exists>s. fst (web_search tavily_search query page) = Inr s) \<and>
   (\<exists>s. fst (get_stock_info fmt yf_info ticker page) = Inr s) \<and>
   (\<exists>s. fst (scrape_pricing_page requests_get BeautifulSoup url page) = Inr s) \<and>
   (tavily_search query = Inl e \<longrightarrow>
      fst (web_search tavily_search query page) = Inr (u ''Search failed: '' @ exn_str e)) \<and>
   (yf_info ticker = Inl e \<longrightarrow>
      fst (get_stock_info fmt yf_info ticker page) =
        Inr (u ''Stock fetch failed: '' @ exn_str e)) \<and>
   (requests_get url = Inl e \<longrightarrow>
      fst (scrape_pricing_page requests_get BeautifulSoup url page) =
        Inr (u ''Error scraping: '' @ exn_str e)) \<and>
   (requests_get url = Inr response \<and> BeautifulSoup (content response) = Inl e \<longrightarrow>
      fst (scrape_pricing_page requests_get BeautifulSoup url page) =
        Inr (u ''Error scraping: '' @ exn_str e))"
  by (simp add: web_search_def get_stock_info_def scrape_pricing_page_def try_except_returns
      web_search_body_def get_stock_info_body_def scrape_pricing_page_body_def)

theorem tool_exceptions_become_strings_witness:
  "fst (web_search failing_search (u ''nvidia'') []) =
     Inr (u ''Search failed: Request timed out'') \<and>
   fst (get_stock_info (\<lambda>x. []) failing_info (u ''NVDA'') []) =
     Inr (u ''Stock fetch failed: Too Many Requests'') \<and>
   fst (scrape_pricing_page failing_get failing_parser (u ''nvidia.com'') []) =
     Inr (u ''Error scraping: Invalid URL '' @ [39] @ u ''nvidia.com'' @ [39] @
          u '': No scheme supplied. Perhaps you meant https://nvidia.com?'') \<and>
   fst (scrape_pricing_page (\<lambda>url. Inr \<lparr>status_code = 200, content = []\<rparr>) failing_parser
          (u ''https://nvidia.com'') []) =
     Inr (u ''Error scraping: Parser rejected the markup'')"
  using
    tool_exceptions_become_strings
      [where tavily_search = failing_search and query = "u ''nvidia''" and page = "[]"
         and fmt = "\<lambda>x. []" and yf_info = failing_info and ticker = "u ''NVDA''"
         and BeautifulSoup = failing_parser
         and requests_get = failing_get and url = "u ''nvidia.com''"
         and response = "\<lparr>status_code = 200, content = []\<rparr>"
         and e = "Raised (u ''Request timed out'')"]
    tool_exceptions_become_strings
      [where tavily_search = failing_search and query = "u ''nvidia''" and page = "[]"
         and fmt = "\<lambda>x. []" and yf_info = failing_info and ticker = "u ''NVDA''"
         and BeautifulSoup = failing_parser
         and requests_get = failing_get and url = "u ''nvidia.com''"
         and response = "\<lparr>status_code = 200, content = []\<rparr>"
         and e = "Raised (u ''Too Many Requests'')"]
    tool_exceptions_become_strings
      [where tavily_search = failing_search and query = "u ''nvidia''" and page = "[]"
         and fmt = "\<lambda>x. []" and yf_info = failing_info and ticker = "u ''NVDA''"
         and BeautifulSoup = failing_parser
         and requests_get = failing_get and url = "u ''nvidia.com''"
         and response = "\<lparr>status_code = 200, content = []\<rparr>"
         and e = "Raised (u ''Invalid URL '' @ [39] @ u ''nvidia.com'' @ [39] @
                   u '': No scheme supplied. Perhaps you meant https://nvidia.com?'')"]
    tool_exceptions_become_strings
      [where tavily_search = failing_search and query = "u ''nvidia''" and page = "[]"
         and fmt = "\<lambda>x. []" and yf_info = failing_info and ticker = "u ''NVDA''"
         and BeautifulSoup = failing_parser
         and requests_get = "\<lambda>url. Inr \<lparr>status_code = 200, content = []\<rparr>"
         and url = "u ''https://nvidia.com''"
         and response = "\<lparr>status_code = 200, content = []\<rparr>"
         and e = "Raised (u ''Parser rejected the markup'')"]
  by (simp add: failing_search_def failing_info_def failing_get_def failing_parser_def u_def)

subsection \<open>What a successful search returns\<close>

text \<open>
  Claim C8. When the search provider returns a response whose result items all carry a
  content field, \<open>web_search\<close> returns those contents, in the order of the response,
  joined by two line feeds (a blank line between one content and the next).
\<close>

theorem web_search_joins_contents:
  assumes "tavily_search query = Inr response"
    and "response (u ''results'') = Some items"
    and "map (\<lambda>obj. obj (u ''content'')) items = map Some texts"
  shows "fst (web_search tavily_search query page) = Inr (join [10, 10] texts)"
  using assms list_comprehension_getitem [of "u ''content''" items texts]
  by (simp add: web_search_def web_search_body_def getitem_def)

theorem web_search_joins_contents_witness:
  "sample_search (u ''nvidia'') = Inr [u ''results'' \<mapsto> sample_items] \<and>
   map (\<lambda>obj. obj (u ''content'')) sample_items = map Some [u ''alpha'', u ''beta''] \<and>
   fst (web_search sample_search (u ''nvidia'') []) = Inr (u ''alpha'' @ [10, 10] @ u ''beta'')"
  using web_search_joins_contents
    [of sample_search "u ''nvidia''" "[u ''results'' \<mapsto> sample_items]" sample_items
        "[u ''alpha'', u ''beta'']" "[]"]
  by (simp add: sample_search_def sample_items_def u_def)

text \<open>
  Claim C9. When the search provider returns an empty list of result items,
  \<open>web_search\<close> returns the empty string as its normal result: the handler of the
  \<open>try\<close> statement is not entered and no prefix is put before it.
\<close>

theorem web_search_empty_results:
  assumes "tavily_search query = Inr response"
    and "response (u ''results'') = Some []"
  shows "web_search_body tavily_search query = Inr [] \<and>
         fst (web_search tavily_search query page) = Inr []"
  using assms by (simp add: web_search_def web_search_body_def getitem_def)

theorem web_search_empty_results_witness:
  "empty_search (u ''nvidia'') = Inr [u ''results'' \<mapsto> []] \<and>
   fst (web_search empty_search (u ''nvidia'') []) = Inr []"
  using web_search_empty_results [of empty_search "u ''nvidia''" "[u ''results'' \<mapsto> []]" "[]"]
  by (simp add: empty_search_def)

subsection \<open>Lines\<close>

lemma splitlines_from_Cons:
  "splitlines_from cur (c # cs) =
     (if is_linebreak c
      then cur # splitlines_from [] (if c = 13 \<and> cs \<noteq> [] \<and> hd cs = 10 then tl cs else cs)
      else splitlines_from (cur @ [c]) cs)"
  by (cases cs) (auto simp: is_linebreak_def)

lemma splitlines_from_plain:
  "\<forall>c\<in>set s. \<not> is_linebreak c \<Longrightarrow>
   splitlines_from cur s = (if cur @ s = [] then [] else [cur @ s])"
  by (induction s arbitrary: cur) (simp_all add: splitlines_from_Cons)

lemma splitlines_from_line:
  "\<forall>c\<in>set s. \<not> is_linebreak c \<Longrightarrow>
   splitlines_from cur (s @ 10 # rest) = (cur @ s) # splitlines_from [] rest"
  by (induction s arbitrary: cur) (simp_all add: splitlines_from_Cons is_linebreak_def)

lemma splitlines_from_chars:
  "l \<in> set (splitlines_from cur s) \<Longrightarrow> c \<in> set l \<Longrightarrow>
   c \<in> set cur \<or> (c \<in> set s \<and> \<not> is_linebreak c)"
proof (induction cur s rule: splitlines_from.induct)
  case (1 cur)
  then show ?case by (auto split: if_splits)
next
  case (2 cur c)
  then show ?case by (auto split: if_splits)
next
  case (3 cur c d cs)
  then show ?case by (auto split: if_splits)
qed

lemma splitlines_no_linebreak:
  "l \<in> set (splitlines s) \<Longrightarrow> c \<in> set l \<Longrightarrow> \<not> is_linebreak c"
  using splitlines_from_chars [of l "[]" s c] by (simp add: splitlines_def)

lemma strip_subset: "set (strip s) \<subseteq> set s"
  by (auto simp: strip_def dest!: set_dropWhileD)

lemma split_from_chars:
  "p \<in> set (split_from cur s) \<Longrightarrow> set p \<subseteq> set cur \<union> set s"
  by (induction cur s rule: split_from.induct) (auto split: if_splits)

lemma chunk_no_linebreak:
  assumes "chunk \<in> set (text_chunks (text_lines text))" and "c \<in> set chunk"
  shows "\<not> is_linebreak c"
proof -
  from assms(1) obtain l p where l: "l \<in> set (splitlines text)"
    and p: "p \<in> set (split_two_spaces (strip l))" and chunk: "chunk = strip p"
    by (auto simp: text_chunks_def text_lines_def)
  from assms(2) chunk have "c \<in> set p" using strip_subset by blast
  with p have "c \<in> set (strip l)"
    using split_from_chars [of p "[]" "strip l"] by (auto simp: split_two_spaces_def)
  then have "c \<in> set l" using strip_subset by blast
  with l show ?thesis by (rule splitlines_no_linebreak)
qed

lemma well_broken_lines:
  "well_broken (cur \<noteq> []) s \<Longrightarrow> \<forall>l\<in>set (splitlines_from cur s). l \<noteq> []"
proof (induction s arbitrary: cur)
  case Nil
  then show ?case by simp
next
  case (Cons c cs)
  show ?case
  proof (cases "c = 10")
    case True
    with Cons.prems have "cur \<noteq> []" and "well_broken ([] \<noteq> ([]::ustr)) cs" by simp_all
    with Cons.IH [of "[]"] True show ?thesis
      by (simp add: splitlines_from_Cons is_linebreak_def)
  next
    case False
    with Cons.prems have "\<not> is_linebreak c" and "well_broken (cur @ [c] \<noteq> []) cs" by simp_all
    with Cons.IH [of "cur @ [c]"] show ?thesis
      by (simp add: splitlines_from_Cons)
  qed
qed

lemma well_broken_take: "well_broken b s \<Longrightarrow> well_broken b (take n s)"
proof (induction s arbitrary: b n)
  case Nil
  then show ?case by simp
next
  case (Cons c cs)
  then show ?case by (cases n) (auto split: if_splits)
qed

lemma well_broken_chunk:
  "\<forall>c\<in>set x. \<not> is_linebreak c \<Longrightarrow> x \<noteq> [] \<Longrightarrow> well_broken b (x @ r) = well_broken True r"
proof (induction x arbitrary: b)
  case Nil
  then show ?case by simp
next
  case (Cons c x)
  then have c: "c \<noteq> 10" "\<not> is_linebreak c" by (auto simp: is_linebreak_def)
  show ?case
  proof (cases "x = []")
    case True
    with c show ?thesis by simp
  next
    case False
    with Cons c show ?thesis by simp
  qed
qed

lemma well_broken_join:
  "\<forall>x\<in>set xs. x \<noteq> [] \<and> (\<forall>c\<in>set x. \<not> is_linebreak c) \<Longrightarrow> well_broken False (join [10] xs)"
proof (induction "[10::nat]" xs rule: join.induct)
  case 1
  then show ?case by simp
next
  case (2 x)
  then show ?case using well_broken_chunk [of x False "[]"] by simp
next
  case (3 x y ys)
  then show ?case using well_broken_chunk [of x False "10 # join [10] (y # ys)"] by simp
qed

lemma clean_text_no_empty_line: "\<forall>l\<in>set (splitlines (clean_text text)). l \<noteq> []"
proof -
  let ?chunks = "filter (\<lambda>chunk. chunk \<noteq> []) (text_chunks (text_lines text))"
  have "\<forall>x\<in>set ?chunks. x \<noteq> [] \<and> (\<forall>c\<in>set x. \<not> is_linebreak c)"
    using chunk_no_linebreak by auto
  then have "well_broken False (join [10] ?chunks)" by (rule well_broken_join)
  then have "well_broken ([] \<noteq> ([]::ustr)) (take 5000 (join [10] ?chunks))"
    using well_broken_take by simp
  then show ?thesis
    unfolding splitlines_def clean_text_def by (rule well_broken_lines)
qed

lemma single_line_u:
  "single_line (u ''        Current Price: $'')"
  "single_line (u ''        Market Cap: $'')"
  "single_line (u ''        52 Week High: $'')"
  "single_line (u ''        Recommendation: '')"
  "single_line (u ''        '')"
  by (simp_all add: single_line_def u_def is_linebreak_def)

lemma single_line_append [simp]: "single_line (a @ b) \<longleftrightarrow> single_line a \<and> single_line b"
  by (simp add: single_line_def)

lemma splitlines_from_single_line:
  "single_line s \<Longrightarrow> splitlines_from cur (s @ 10 # rest) = (cur @ s) # splitlines_from [] rest"
  using splitlines_from_line [of s cur rest] by (simp add: single_line_def list_all_iff)

lemma splitlines_from_last_line:
  "single_line s \<Longrightarrow> s \<noteq> [] \<Longrightarrow> splitlines_from [] s = [s]"
  using splitlines_from_plain [of s "[]"] by (simp add: single_line_def list_all_iff)

lemma splitlines_stock_template:
  assumes "single_line (info_field fmt info ''currentPrice'')"
    and "single_line (info_field fmt info ''marketCap'')"
    and "single_line (info_field fmt info ''fiftyTwoWeekHigh'')"
    and "single_line (info_field fmt info ''recommendationKey'')"
  shows "splitlines (stock_template fmt info) =
           [[], price_line fmt info, cap_line fmt info, high_line fmt info,
            recommendation_line fmt info, u ''        '']"
proof -
  have p: "single_line (price_line fmt info)" and c: "single_line (cap_line fmt info)"
    and h: "single_line (high_line fmt info)" and r: "single_line (recommendation_line fmt info)"
    using assms
    by (simp_all add: price_line_def cap_line_def high_line_def recommendation_line_def
        single_line_u)
  have e: "single_line []" by (simp add: single_line_def)
  have last: "splitlines_from [] (u ''        '') = [u ''        '']"
    by (rule splitlines_from_last_line) (simp_all add: single_line_u, simp add: u_def)
  show ?thesis
    unfolding splitlines_def stock_template_def
    using splitlines_from_single_line [OF e, of "[]"]
      splitlines_from_single_line [OF p, of "[]"] splitlines_from_single_line [OF c, of "[]"]
      splitlines_from_single_line [OF h, of "[]"] splitlines_from_single_line [OF r, of "[]"]
      last
    by simp
qed

subsection \<open>The lines of a quote\<close>

text \<open>
  Claim C3, as the code has it. When the provider returns a dictionary and the four
  formatted values contain no line boundary, \<open>get_stock_info\<close> returns the template:
  under \<open>str.splitlines\<close> an empty first line, then exactly four field lines in the
  order price, market capitalisation, 52-week high, recommendation, each after eight
  spaces, then a last line of eight spaces. A field whose key is absent from the
  dictionary renders as \<open>N/A\<close>.
\<close>

theorem stock_info_lines:
  assumes "yf_info ticker = Inr info"
    and "single_line (info_field fmt info ''currentPrice'')"
    and "single_line (info_field fmt info ''marketCap'')"
    and "single_line (info_field fmt info ''fiftyTwoWeekHigh'')"
    and "single_line (info_field fmt info ''recommendationKey'')"
  shows "fst (get_stock_info fmt yf_info ticker page) = Inr (stock_template fmt info) \<and>
         splitlines (stock_template fmt info) =
           [[],
            u ''        Current Price: $'' @ info_field fmt info ''currentPrice'',
            u ''        Market Cap: $'' @ info_field fmt info ''marketCap'',
            u ''        52 Week High: $'' @ info_field fmt info ''fiftyTwoWeekHigh'',
            u ''        Recommendation: '' @ info_field fmt info ''recommendationKey'',
            u ''        ''] \<and>
         (\<forall>key. info (u key) = None \<longrightarrow> info_field fmt info key = u ''N/A'')"
  using assms splitlines_stock_template [of fmt info]
  by (simp add: get_stock_info_def get_stock_info_body_def info_field_def dict_get_def
      price_line_def cap_line_def high_line_def recommendation_line_def)

lemma partial_info_fields:
  "info_field format_none [u ''recommendationKey'' \<mapsto> PyStr (u ''buy''), u ''marketCap'' \<mapsto> PyObj ()] ''currentPrice'' = u ''N/A''"
  "info_field format_none [u ''recommendationKey'' \<mapsto> PyStr (u ''buy''), u ''marketCap'' \<mapsto> PyObj ()] ''marketCap'' = u ''None''"
  "info_field format_none [u ''recommendationKey'' \<mapsto> PyStr (u ''buy''), u ''marketCap'' \<mapsto> PyObj ()] ''fiftyTwoWeekHigh'' = u ''N/A''"
  "info_field format_none [u ''recommendationKey'' \<mapsto> PyStr (u ''buy''), u ''marketCap'' \<mapsto> PyObj ()] ''recommendationKey'' = u ''buy''"
  by (simp_all add: info_field_def dict_get_def format_none_def u_def)

theorem stock_info_lines_witness:
  "partial_fields (u ''NVDA'') =
     Inr [u ''recommendationKey'' \<mapsto> PyStr (u ''buy''), u ''marketCap'' \<mapsto> PyObj ()] \<and>
   fst (get_stock_info format_none partial_fields (u ''NVDA'') []) =
     Inr (stock_template format_none
       [u ''recommendationKey'' \<mapsto> PyStr (u ''buy''), u ''marketCap'' \<mapsto> PyObj ()]) \<and>
   splitlines (stock_template format_none
       [u ''recommendationKey'' \<mapsto> PyStr (u ''buy''), u ''marketCap'' \<mapsto> PyObj ()]) =
     [[], u ''        Current Price: $N/A'', u ''        Market Cap: $None'',
      u ''        52 Week High: $N/A'', u ''        Recommendation: buy'', u ''        ''] \<and>
   [u ''recommendationKey'' \<mapsto> PyStr (u ''buy''), u ''marketCap'' \<mapsto> PyObj ()]
     (u ''currentPrice'') = None \<and>
   info_field format_none
     [u ''recommendationKey'' \<mapsto> PyStr (u ''buy''), u ''marketCap'' \<mapsto> PyObj ()]
     ''currentPrice'' = u ''N/A''"
proof -
  let ?info = "[u ''recommendationKey'' \<mapsto> PyStr (u ''buy''), u ''marketCap'' \<mapsto> PyObj ()]"
  have provider: "partial_fields (u ''NVDA'') = Inr ?info"
    by (simp add: partial_fields_def)
  have lines: "single_line (info_field format_none ?info ''currentPrice'')"
    "single_line (info_field format_none ?info ''marketCap'')"
    "single_line (info_field format_none ?info ''fiftyTwoWeekHigh'')"
    "single_line (info_field format_none ?info ''recommendationKey'')"
    unfolding partial_info_fields by (simp_all add: single_line_def is_linebreak_def u_def)
  from stock_info_lines
    [where yf_info = partial_fields and ticker = "u ''NVDA''" and info = ?info
       and fmt = format_none and page = "[]", OF provider lines]
    provider show ?thesis
    unfolding partial_info_fields by (simp add: u_def)
qed

text \<open>
  Claim C3 as stated fails: with no field in the response the returned string has six
  lines, not four. The first is empty and the last holds eight spaces.
\<close>

theorem stock_info_not_four_lines:
  "fst (get_stock_info format_none no_fields (u ''NVDA'') []) =
     Inr ([10] @ u ''        Current Price: $N/A'' @
          [10] @ u ''        Market Cap: $N/A'' @
          [10] @ u ''        52 Week High: $N/A'' @
          [10] @ u ''        Recommendation: N/A'' @
          [10] @ u ''        '') \<and>
   splitlines ([10] @ u ''        Current Price: $N/A'' @
          [10] @ u ''        Market Cap: $N/A'' @
          [10] @ u ''        52 Week High: $N/A'' @
          [10] @ u ''        Recommendation: N/A'' @
          [10] @ u ''        '') =
     [[], u ''        Current Price: $N/A'', u ''        Market Cap: $N/A'',
      u ''        52 Week High: $N/A'', u ''        Recommendation: N/A'', u ''        ''] \<and>
   length (splitlines ([10] @ u ''        Current Price: $N/A'' @
          [10] @ u ''        Market Cap: $N/A'' @
          [10] @ u ''        52 Week High: $N/A'' @
          [10] @ u ''        Recommendation: N/A'' @
          [10] @ u ''        '')) \<noteq> 4"
  by (simp add: get_stock_info_def get_stock_info_body_def no_fields_def stock_template_def
      price_line_def cap_line_def high_line_def recommendation_line_def info_field_def
      dict_get_def splitlines_def is_linebreak_def u_def)

subsection \<open>The text of a page\<close>

lemma texts_in_path: "(q, s) \<in> set (texts_in p t) \<Longrightarrow> set p \<subseteq> set q"
proof (induction t arbitrary: p)
  case (Tag n children)
  then obtain c where "c \<in> set children" and "(q, s) \<in> set (texts_in (n # p) c)" by auto
  with Tag.IH [of c "n # p"] show ?case by auto
qed auto

lemma texts_in_named:
  assumes "named names t"
  shows "filter (outside names) (texts_in p t) = []"
proof -
  from assms obtain m cs where t: "t = Tag m cs" and m: "m \<in> set names"
    by (cases t) auto
  have "\<not> outside names (q, s)" if "(q, s) \<in> set (texts_in p t)" for q s
  proof -
    from that t obtain c where "(q, s) \<in> set (texts_in (m # p) c)" by auto
    then have "m \<in> set q" using texts_in_path by fastforce
    with m show ?thesis by (auto simp: outside_def list_all_iff)
  qed
  then show ?thesis by (auto simp: filter_empty_conv)
qed

lemma get_text_decompose_all:
  "list_all (\<lambda>n. n \<notin> set names) p \<Longrightarrow> \<not> named names t \<Longrightarrow>
   get_text (decompose_all names t) = concat (map snd (filter (outside names) (texts_in p t)))"
proof (induction t arbitrary: p)
  case (NavigableString s)
  then show ?case by (simp add: outside_def)
next
  case (OtherString s)
  then show ?case by simp
next
  case (Tag n children)
  from Tag.prems have path: "list_all (\<lambda>n. n \<notin> set names) (n # p)" by simp
  have "set cs \<subseteq> set children \<Longrightarrow>
        concat (map get_text (map (decompose_all names) (filter (\<lambda>c. \<not> named names c) cs))) =
        concat (map snd (filter (outside names) (concat (map (texts_in (n # p)) cs))))" for cs
  proof (induction cs)
    case Nil
    then show ?case by simp
  next
    case (Cons c cs)
    show ?case
    proof (cases "named names c")
      case True
      with Cons show ?thesis by (simp add: texts_in_named)
    next
      case False
      with Cons.prems Tag.IH [of c "n # p"] path
      have "get_text (decompose_all names c) =
            concat (map snd (filter (outside names) (texts_in (n # p) c)))" by simp
      with False Cons show ?thesis by simp
    qed
  qed
  then show ?case by simp
qed

lemma get_text_document:
  "get_text (decompose_all [u ''script'', u ''style''] (document nodes)) =
   text_outside [u ''script'', u ''style''] (document nodes)"
  unfolding text_outside_def
  by (rule get_text_decompose_all) (simp_all add: document_def u_def)

lemma scrape_pricing_page_success:
  assumes "requests_get url = Inr response"
    and "BeautifulSoup (content response) = Inr nodes"
  shows "scrape_pricing_page_body requests_get BeautifulSoup url =
           Inr (clean_text (text_outside [u ''script'', u ''style''] (document nodes)))"
    and "fst (scrape_pricing_page requests_get BeautifulSoup url page) =
           Inr (clean_text (text_outside [u ''script'', u ''style''] (document nodes)))"
  using assms
  by (simp_all add: scrape_pricing_page_def scrape_pricing_page_body_def get_text_document)

lemma length_clean_text: "length (clean_text text) \<le> 5000"
  by (simp add: clean_text_def)

lemma sample_providers:
  "sample_get (u ''https://example.com/pricing'') =
     Inr \<lparr>status_code = 404, content = ''<!DOCTYPE html><html>...</html>''\<rparr>"
  "sample_parser (content \<lparr>status_code = 404, content = ''<!DOCTYPE html><html>...</html>''\<rparr>) =
     Inr sample_page"
  by (simp_all add: sample_get_def sample_parser_def)

lemma sample_text: "text_outside [u ''script'', u ''style''] (document sample_page) =
   u ''Not Found'' @ [10, 10] @ u ''  Pro plan  $20 per month '' @ [13, 10, 10, 32, 32, 10] @ u ''Contact sales''"
  by (simp add: text_outside_def document_def sample_page_def outside_def u_def)

lemma sample_lines: "text_lines (u ''Not Found'' @ [10, 10] @ u ''  Pro plan  $20 per month '' @ [13, 10, 10, 32, 32, 10] @ u ''Contact sales'')
  = [u ''Not Found'', [], u ''Pro plan  $20 per month'', [], [], u ''Contact sales'']"
  by (simp add: text_lines_def splitlines_def is_linebreak_def strip_def isspace_def u_def)

lemma sample_chunks: "text_chunks [u ''Not Found'', [], u ''Pro plan  $20 per month'', [], [], u ''Contact sales'']
  = [u ''Not Found'', [], u ''Pro plan'', u ''$20 per month'', [], [], u ''Contact sales'']"
  by (simp add: text_chunks_def split_two_spaces_def strip_def isspace_def u_def)

lemma sample_clean: "clean_text (text_outside [u ''script'', u ''style''] (document sample_page)) =
  u ''Not Found'' @ [10] @ u ''Pro plan'' @ [10] @ u ''$20 per month'' @ [10] @ u ''Contact sales''"
  unfolding sample_text clean_text_def sample_lines sample_chunks
  by (simp add: u_def)

text \<open>
  Claim C4, as the code has it. Whenever the page is fetched and parsed without an
  exception, the string \<open>scrape_pricing_page\<close> returns has at most 5000 characters,
  whatever the size of the page.
\<close>

theorem scraped_text_at_most_5000:
  assumes "requests_get url = Inr response"
    and "BeautifulSoup (content response) = Inr nodes"
  shows "\<exists>out. fst (scrape_pricing_page requests_get BeautifulSoup url page) = Inr out \<and>
           length out \<le> 5000"
  using assms length_clean_text by (simp add: scrape_pricing_page_success)

theorem scraped_text_at_most_5000_witness:
  "sample_get (u ''https://example.com/pricing'') =
     Inr \<lparr>status_code = 404, content = ''<!DOCTYPE html><html>...</html>''\<rparr> \<and>
   (\<exists>out. fst (scrape_pricing_page sample_get sample_parser
                  (u ''https://example.com/pricing'') []) = Inr out \<and>
      length out \<le> 5000)"
  using scraped_text_at_most_5000
    [where requests_get = sample_get and BeautifulSoup = sample_parser
       and url = "u ''https://example.com/pricing''" and page = "[]", OF sample_providers]
    sample_providers(1)
  by simp

text \<open>
  Claim C4 as stated fails on the error path, which does not truncate: for a URL of 5000
  characters without a scheme, the request raises an exception that quotes the URL, and
  the returned string has 10079 characters.
\<close>

theorem scrape_error_exceeds_5000:
  "fst (scrape_pricing_page failing_get sample_parser (replicate 5000 97) []) =
     Inr (u ''Error scraping: Invalid URL '' @ [39] @ replicate 5000 97 @ [39] @
          u '': No scheme supplied. Perhaps you meant https://'' @ replicate 5000 97 @ u ''?'') \<and>
   length (u ''Error scraping: Invalid URL '' @ [39] @ replicate 5000 97 @ [39] @
          u '': No scheme supplied. Perhaps you meant https://'' @ replicate 5000 97 @ u ''?'')
     = 10079"
  by (simp add: scrape_pricing_page_def scrape_pricing_page_body_def failing_get_def u_def)

text \<open>
  Claim C6, as the code has it. Whenever the page is fetched and the parser accepts it,
  the string \<open>scrape_pricing_page\<close> returns has no empty line (every line of it
  under \<open>str.splitlines\<close> has at least one character), and it is the cleaned,
  truncated text of exactly those strings of the document that lie in no \<open>script\<close>
  and no \<open>style\<close> element.
\<close>

theorem scraped_text_no_empty_line_no_script:
  assumes "requests_get url = Inr response"
    and "BeautifulSoup (content response) = Inr nodes"
  shows "\<exists>out. fst (scrape_pricing_page requests_get BeautifulSoup url page) = Inr out \<and>
           (\<forall>line\<in>set (splitlines out). line \<noteq> []) \<and>
           out = clean_text (text_outside [u ''script'', u ''style''] (document nodes))"
  using assms clean_text_no_empty_line by (simp add: scrape_pricing_page_success)

theorem scraped_text_no_empty_line_no_script_witness:
  "fst (scrape_pricing_page sample_get sample_parser (u ''https://example.com/pricing'') []) =
     Inr (u ''Not Found'' @ [10] @ u ''Pro plan'' @ [10] @ u ''$20 per month'' @ [10] @
          u ''Contact sales'') \<and>
   splitlines (u ''Not Found'' @ [10] @ u ''Pro plan'' @ [10] @ u ''$20 per month'' @ [10] @
          u ''Contact sales'') =
     [u ''Not Found'', u ''Pro plan'', u ''$20 per month'', u ''Contact sales'']"
proof -
  have "splitlines (u ''Not Found'' @ [10] @ u ''Pro plan'' @ [10] @ u ''$20 per month'' @ [10] @
          u ''Contact sales'') =
     [u ''Not Found'', u ''Pro plan'', u ''$20 per month'', u ''Contact sales'']"
    by (simp add: splitlines_def is_linebreak_def u_def)
  with scraped_text_no_empty_line_no_script
    [where requests_get = sample_get and BeautifulSoup = sample_parser
       and url = "u ''https://example.com/pricing''" and page = "[]", OF sample_providers]
  show ?thesis unfolding sample_clean by auto
qed

text \<open>
  Claim C6 as stated fails for input the parser rejects: the handler returns the text of
  the parser's exception after its prefix, and that text has a blank line.
\<close>

theorem scrape_rejected_markup_has_empty_line:
  "fst (scrape_pricing_page rejected_get rejecting_parser (u ''https://example.com/pricing'') []) =
     Inr (u ''Error scraping: '' @ rejected_message) \<and>
   splitlines (u ''Error scraping: '' @ rejected_message) =
     [u ''Error scraping: The markup you provided was rejected by the parser. Trying a different parser or a different encoding may help.'',
      [],
      u ''Original exception(s) from parser:'',
      u '' AssertionError: expected name token''] \<and>
   [] \<in> set (splitlines (u ''Error scraping: '' @ rejected_message))"
proof -
  have run: "fst (scrape_pricing_page rejected_get rejecting_parser
                (u ''https://example.com/pricing'') []) =
             Inr (u ''Error scraping: '' @ rejected_message)"
    by (simp add: scrape_pricing_page_def scrape_pricing_page_body_def rejected_get_def
        rejecting_parser_def)
  have lines: "splitlines (u ''Error scraping: '' @ rejected_message) =
     [u ''Error scraping: The markup you provided was rejected by the parser. Trying a different parser or a different encoding may help.'',
      [],
      u ''Original exception(s) from parser:'',
      u '' AssertionError: expected name token'']"
    by (simp add: rejected_message_def splitlines_def is_linebreak_def u_def)
  from run lines show ?thesis by simp
qed

text \<open>
  Claim C10, as the code has it. \<open>scrape_pricing_page\<close> does not look at the status code.
  For every response the request returns and the parser accepts, also one with status
  404 or 500, the body of the \<open>try\<close> statement returns normally and the function
  returns the extracted and truncated text of the page: the handler is not entered, so
  the result starts with \<open>Error scraping:\<close> only if the text of the page itself does.
  The same response with any other status code gives the same result.
\<close>

theorem scrape_ignores_status:
  assumes "requests_get url = Inr response"
    and "BeautifulSoup (content response) = Inr nodes"
  shows "scrape_pricing_page_body requests_get BeautifulSoup url =
           Inr (clean_text (get_text (decompose_all [u ''script'', u ''style'']
                  (document nodes)))) \<and>
         fst (scrape_pricing_page requests_get BeautifulSoup url page) =
           Inr (clean_text (get_text (decompose_all [u ''script'', u ''style'']
                  (document nodes)))) \<and>
         fst (scrape_pricing_page (\<lambda>x. Inr (response\<lparr>status_code := code\<rparr>))
                BeautifulSoup url page) =
           fst (scrape_pricing_page requests_get BeautifulSoup url page) \<and>
         (\<not> prefix (u ''Error scraping:'')
              (clean_text (get_text (decompose_all [u ''script'', u ''style'']
                 (document nodes)))) \<longrightarrow>
          (\<forall>out. fst (scrape_pricing_page requests_get BeautifulSoup url page) = Inr out \<longrightarrow>
                 \<not> prefix (u ''Error scraping:'') out))"
  using assms by (simp add: scrape_pricing_page_def scrape_pricing_page_body_def)

theorem scrape_ignores_status_witness:
  "status_code \<lparr>status_code = 404, content = ''<!DOCTYPE html><html>...</html>''\<rparr> = 404 \<and>
   sample_get (u ''https://example.com/pricing'') =
     Inr \<lparr>status_code = 404, content = ''<!DOCTYPE html><html>...</html>''\<rparr> \<and>
   fst (scrape_pricing_page sample_get sample_parser (u ''https://example.com/pricing'') []) =
     Inr (u ''Not Found'' @ [10] @ u ''Pro plan'' @ [10] @ u ''$20 per month'' @ [10] @
          u ''Contact sales'') \<and>
   \<not> prefix (u ''Error scraping:'')
       (u ''Not Found'' @ [10] @ u ''Pro plan'' @ [10] @ u ''$20 per month'' @ [10] @
        u ''Contact sales'')"
proof -
  have no_prefix: "\<not> prefix (u ''Error scraping:'')
       (u ''Not Found'' @ [10] @ u ''Pro plan'' @ [10] @ u ''$20 per month'' @ [10] @
        u ''Contact sales'')"
    by (simp add: u_def)
  from scrape_ignores_status
    [where requests_get = sample_get and BeautifulSoup = sample_parser
       and url = "u ''https://example.com/pricing''" and page = "[]", OF sample_providers]
  have "fst (scrape_pricing_page sample_get sample_parser (u ''https://example.com/pricing'') []) =
        Inr (clean_text (get_text (decompose_all [u ''script'', u ''style'']
               (document sample_page))))"
    by (rule conjunct1 [OF conjunct2])
  then have run:
    "fst (scrape_pricing_page sample_get sample_parser (u ''https://example.com/pricing'') []) =
       Inr (u ''Not Found'' @ [10] @ u ''Pro plan'' @ [10] @ u ''$20 per month'' @ [10] @
            u ''Contact sales'')"
    unfolding get_text_document sample_clean .
  have code: "status_code \<lparr>status_code = 404, content = ''<!DOCTYPE html><html>...</html>''\<rparr> = 404"
    by simp
  from code sample_providers(1) run no_prefix show ?thesis by (intro conjI)
qed

text \<open>
  Claim C10 as stated fails for a received response whose body the parser rejects: the
  response arrives with status 404, the parser raises, and the function returns the
  handler's string, with the prefix.
\<close>

theorem scrape_rejected_markup_has_prefix:
  "rejected_get (u ''https://example.com/pricing'') =
     Inr \<lparr>status_code = 404, content = ''<![n]>x''\<rparr> \<and>
   fst (scrape_pricing_page rejected_get rejecting_parser (u ''https://example.com/pricing'') []) =
     Inr (u ''Error scraping: '' @ rejected_message) \<and>
   prefix (u ''Error scraping:'') (u ''Error scraping: '' @ rejected_message)"
  by (simp add: scrape_pricing_page_def scrape_pricing_page_body_def rejected_get_def
      rejecting_parser_def u_def)

text \<open>
  On the success path the prefix is not excluded either: a page whose text is
  \<open>Error scraping: x\<close> is returned as it is.
\<close>

lemma scrape_page_text_with_prefix:
  "fst (scrape_pricing_page error_like_get error_like_parser (u ''https://example.com'') []) =
     Inr (u ''Error scraping: x'')"
proof -
  have lines: "text_lines (u ''Error scraping: x'') = [u ''Error scraping: x'']"
    by (simp add: text_lines_def splitlines_def is_linebreak_def strip_def isspace_def u_def)
  have chunks: "text_chunks [u ''Error scraping: x''] = [u ''Error scraping: x'']"
    by (simp add: text_chunks_def split_two_spaces_def strip_def isspace_def u_def)
  have "clean_text (u ''Error scraping: x'') = u ''Error scraping: x''"
    unfolding clean_text_def lines chunks by (simp add: u_def)
  then show ?thesis
    by (simp add: scrape_pricing_page_def scrape_pricing_page_body_def error_like_get_def
        error_like_parser_def document_def)
qed

subsection \<open>The script\<close>

lemma agent_constructions_simps [simp]:
  "agent_constructions [] = 0"
  "agent_constructions (a @ b) = agent_constructions a + agent_constructions b"
  "agent_constructions (e # b) =
     (case e of AgentFromTools p \<Rightarrow> 1 | _ \<Rightarrow> 0) + agent_constructions b"
  by (simp_all add: agent_constructions_def split: ui_event.split)

lemma agent_chats_simps [simp]:
  "agent_chats [] = 0"
  "agent_chats (a @ b) = agent_chats a + agent_chats b"
  "agent_chats (e # b) = (case e of AgentChat m \<Rightarrow> 1 | _ \<Rightarrow> 0) + agent_chats b"
  by (simp_all add: agent_chats_def split: ui_event.split)

lemma toasts_no_agent [simp]:
  "agent_constructions (map (\<lambda>(t, icon). Toast t icon) toasts) = 0"
  "agent_chats (map (\<lambda>(t, icon). Toast t icon) toasts) = 0"
  by (simp_all add: agent_constructions_def agent_chats_def filter_map comp_def split_def)

lemma display_results_no_agent [simp]:
  "agent_constructions (display_results up t g r page) = agent_constructions page"
  "agent_chats (display_results up t g r page) = agent_chats page"
  by (simp_all add: display_results_def)

lemma main_agent_logic_empty:
  "button w \<Longrightarrow> text_input w = [] \<Longrightarrow>
   main_agent_logic w llm page = (Finished, page @ [Warning warning_message])"
  by (simp add: main_agent_logic_def)

lemma main_agent_logic_no_agent:
  "button w \<Longrightarrow> text_input w \<noteq> [] \<Longrightarrow>
   from_tools w llm (system_prompt (text_input w) (pills w)) = Inl e \<Longrightarrow>
   main_agent_logic w llm page = (Crashed e, agent_page w page)"
  by (simp add: main_agent_logic_def agent_page_def Let_def)

lemma main_agent_logic_chat_raises:
  "button w \<Longrightarrow> text_input w \<noteq> [] \<Longrightarrow>
   from_tools w llm (system_prompt (text_input w) (pills w)) = Inr agent \<Longrightarrow>
   chat w agent (chat_message (text_input w) (pills w)) = (Inl e, toasts) \<Longrightarrow>
   main_agent_logic w llm page =
     (Crashed e,
      agent_page w page @ [AgentChat (chat_message (text_input w) (pills w))] @
      map (\<lambda>(t, icon). Toast t icon) toasts)"
  by (simp add: main_agent_logic_def agent_page_def Let_def)

lemma main_agent_logic_report:
  "button w \<Longrightarrow> text_input w \<noteq> [] \<Longrightarrow>
   from_tools w llm (system_prompt (text_input w) (pills w)) = Inr agent \<Longrightarrow>
   chat w agent (chat_message (text_input w) (pills w)) = (Inr report, toasts) \<Longrightarrow>
   main_agent_logic w llm page =
     (Finished,
      display_results (upper w) (text_input w) (pills w) report
        (agent_page w page @ [AgentChat (chat_message (text_input w) (pills w))] @
         map (\<lambda>(t, icon). Toast t icon) toasts @
         [StatusUpdate ([0x2705] @ u '' Analysis Complete'')]))"
  by (simp add: main_agent_logic_def agent_page_def Let_def)

lemma agent_page_counts [simp]:
  "agent_constructions (agent_page w page) = agent_constructions page + 1"
  "agent_chats (agent_page w page) = agent_chats page"
  by (simp_all add: agent_page_def)

lemma setup_api_keys_stops:
  "\<not> truthy (env (u ''OPENAI_API_KEY'')) \<Longrightarrow> store (u ''OPENAI_API_KEY'') = None \<Longrightarrow>
   setup_api_keys env (Inr store) page = (Inl Stopped, page @ [Error missing_keys_message])"
  by (simp add: setup_api_keys_def)

lemma setup_api_keys_no_secrets_file:
  "\<not> truthy (env (u ''OPENAI_API_KEY'')) \<Longrightarrow>
   setup_api_keys env (Inl e) page = (Inl (Crashed e), page)"
  by (simp add: setup_api_keys_def)

lemma setup_api_keys_model_key_in_env:
  "truthy (env (u ''OPENAI_API_KEY'')) \<Longrightarrow>
   setup_api_keys env secr page =
     (Inr (env (u ''OPENAI_API_KEY''), env (u ''TAVILY_API_KEY'')), page)"
  by (simp add: setup_api_keys_def)

lemma script_stops_without_model_key:
  "\<not> truthy (getenv w (u ''OPENAI_API_KEY'')) \<Longrightarrow> secrets w = Inr store \<Longrightarrow>
   store (u ''OPENAI_API_KEY'') = None \<Longrightarrow>
   script w = (Stopped, [PageConfig, Style, Error missing_keys_message])"
  by (simp add: script_def setup_api_keys_stops)

lemma script_crashes_without_secrets_file:
  "\<not> truthy (getenv w (u ''OPENAI_API_KEY'')) \<Longrightarrow> secrets w = Inl e \<Longrightarrow>
   script w = (Crashed e, [PageConfig, Style])"
  by (simp add: script_def setup_api_keys_no_secrets_file)


text \<open>
  Claim C5. Pressing the button with an empty target name calls neither \<open>from_tools\<close>
  nor \<open>chat\<close> and puts the fixed warning on the page. Pressing it with a target name
  calls \<open>from_tools\<close> exactly once, with the system prompt of the two inputs, and runs
  exactly one turn of the agent it returns, with the message of the two inputs: what
  that turn does decides the run. When the turn returns a report, the run finishes with
  the turn's notifications and the report on the page; when the turn raises, the run
  ends with that exception after the turn's notifications; when \<open>from_tools\<close> itself
  raises, the run ends with that exception and no turn is run.
\<close>

theorem agent_invoked_once_iff_target:
  assumes "button w"
  shows "(text_input w = [] \<longrightarrow>
            main_agent_logic w llm page = (Finished, page @ [Warning warning_message]) \<and>
            agent_constructions (snd (main_agent_logic w llm page)) = agent_constructions page \<and>
            agent_chats (snd (main_agent_logic w llm page)) = agent_chats page) \<and>
         (text_input w \<noteq> [] \<longrightarrow>
            agent_constructions (snd (main_agent_logic w llm page)) =
              agent_constructions page + 1 \<and>
            agent_chats (snd (main_agent_logic w llm page)) =
              agent_chats page +
              (case from_tools w llm (system_prompt (text_input w) (pills w)) of
                 Inl e \<Rightarrow> 0 | Inr agent \<Rightarrow> 1) \<and>
            (\<forall>e. from_tools w llm (system_prompt (text_input w) (pills w)) = Inl e \<longrightarrow>
               main_agent_logic w llm page = (Crashed e, agent_page w page)) \<and>
            (\<forall>agent e toasts.
               from_tools w llm (system_prompt (text_input w) (pills w)) = Inr agent \<and>
               chat w agent (chat_message (text_input w) (pills w)) = (Inl e, toasts) \<longrightarrow>
               main_agent_logic w llm page =
                 (Crashed e,
                  agent_page w page @ [AgentChat (chat_message (text_input w) (pills w))] @
                  map (\<lambda>(t, icon). Toast t icon) toasts)) \<and>
            (\<forall>agent report toasts.
               from_tools w llm (system_prompt (text_input w) (pills w)) = Inr agent \<and>
               chat w agent (chat_message (text_input w) (pills w)) = (Inr report, toasts) \<longrightarrow>
               main_agent_logic w llm page =
                 (Finished,
                  display_results (upper w) (text_input w) (pills w) report
                    (agent_page w page @ [AgentChat (chat_message (text_input w) (pills w))] @
                     map (\<lambda>(t, icon). Toast t icon) toasts @
                     [StatusUpdate ([0x2705] @ u '' Analysis Complete'')]))))"
proof (cases "text_input w = []")
  case True
  with assms show ?thesis by (simp add: main_agent_logic_empty)
next
  case False
  show ?thesis
  proof (cases "from_tools w llm (system_prompt (text_input w) (pills w))")
    case (Inl e)
    with assms False show ?thesis by (simp add: main_agent_logic_no_agent)
  next
    case (Inr agent)
    obtain result toasts
      where c: "chat w agent (chat_message (text_input w) (pills w)) = (result, toasts)"
      by (cases "chat w agent (chat_message (text_input w) (pills w))")
    show ?thesis
    proof (cases result)
      case (Inl e)
      with assms False Inr c show ?thesis by (simp add: main_agent_logic_chat_raises)
    next
      case r: (Inr report)
      with assms False Inr c show ?thesis by (simp add: main_agent_logic_report)
    qed
  qed
qed

theorem agent_invoked_once_iff_target_witness:
  "button sample_world \<and> text_input sample_world \<noteq> [] \<and>
   agent_constructions (snd (main_agent_logic sample_world () [])) = 1 \<and>
   agent_chats (snd (main_agent_logic sample_world () [])) = 1 \<and>
   main_agent_logic sample_world () [] =
     (Finished,
      display_results (\<lambda>s. u ''NVIDIA'') (u ''Nvidia'') (Some (u ''General Analysis''))
        (u ''## Strategic Verdict'')
        (agent_page sample_world [] @
         [AgentChat (chat_message (u ''Nvidia'') (Some (u ''General Analysis''))),
          Toast (u ''Reading Market Data: NVDA...'') [0x1F4CA],
          StatusUpdate ([0x2705] @ u '' Analysis Complete'')])) \<and>
   main_agent_logic (sample_world\<lparr>chat := rate_limited_chat\<rparr>) () [] =
     (Crashed (Raised (u ''Rate limit reached'')),
      agent_page sample_world [] @
      [AgentChat (chat_message (u ''Nvidia'') (Some (u ''General Analysis''))),
       Toast (u ''Searching Google: Nvidia...'') [0x1F50D]]) \<and>
   main_agent_logic (sample_world\<lparr>from_tools := rejecting_from_tools\<rparr>) () [] =
     (Crashed (Raised (u ''Invalid tool schema'')), agent_page sample_world []) \<and>
   button (sample_world\<lparr>text_input := []\<rparr>) \<and>
   text_input (sample_world\<lparr>text_input := []\<rparr>) = [] \<and>
   main_agent_logic (sample_world\<lparr>text_input := []\<rparr>) () [] =
     (Finished, [Warning warning_message])"
  using agent_invoked_once_iff_target [of sample_world "()" "[]"]
    agent_invoked_once_iff_target [of "sample_world\<lparr>chat := rate_limited_chat\<rparr>" "()" "[]"]
    agent_invoked_once_iff_target
      [of "sample_world\<lparr>from_tools := rejecting_from_tools\<rparr>" "()" "[]"]
    agent_invoked_once_iff_target [of "sample_world\<lparr>text_input := []\<rparr>" "()" "[]"]
  by (simp add: sample_world_def rate_limited_chat_def rejecting_from_tools_def agent_page_def
      u_def)

text \<open>
  Claim C7. When the button is pressed with target name \<open>t\<close> and the agent returns a
  report, the run finishes and the last thing on the page is the export button: its
  payload is the report text itself and its file name is \<open>Stratagem_\<close>, then \<open>t\<close>,
  then \<open>_Report.md\<close>. For the target \<open>Nvidia\<close> that is
  \<open>Stratagem_Nvidia_Report.md\<close>.
\<close>

theorem export_payload_and_filename:
  assumes "button w" and "text_input w \<noteq> []"
    and "from_tools w llm (system_prompt (text_input w) (pills w)) = Inr agent"
    and "chat w agent (chat_message (text_input w) (pills w)) = (Inr report, toasts)"
  shows "fst (main_agent_logic w llm page) = Finished \<and>
         last (snd (main_agent_logic w llm page)) =
           DownloadButton ([0x1F4E5] @ u '' Export Dossier (Markdown)'') report
             (u ''Stratagem_'' @ text_input w @ u ''_Report.md'') (u ''text/markdown'') \<and>
         filename (u ''Nvidia'') = u ''Stratagem_Nvidia_Report.md''"
  using assms
  by (simp add: main_agent_logic_report display_results_def) (simp add: filename_def u_def)

theorem export_payload_and_filename_witness:
  "button sample_world \<and> text_input sample_world = u ''Nvidia'' \<and>
   last (snd (main_agent_logic sample_world () [])) =
     DownloadButton ([0x1F4E5] @ u '' Export Dossier (Markdown)'') (u ''## Strategic Verdict'')
       (u ''Stratagem_Nvidia_Report.md'') (u ''text/markdown'')"
  using export_payload_and_filename [of sample_world "()" "()" "u ''## Strategic Verdict''"
      "[(u ''Reading Market Data: NVDA...'', [0x1F4CA])]" "[]"]
  by (simp add: sample_world_def u_def)

end
